theory Spec2Isabelle
  imports Complex_Main "HOL-Library.Sublist"
begin

section \<open>JavaScript strings and numbers\<close>

text \<open>
  A JavaScript string is a sequence of UTF-16 code units; the Cyrillic messages and the
  rouble sign of the sources do not fit an 8-bit \<^typ>\<open>char\<close>, so a string is a list of
  code units. \<open>ascii\<close> embeds an ASCII literal.
\<close>

type_synonym jsstring = "nat list"

definition ascii :: "string \<Rightarrow> jsstring" where
  "ascii s = map of_char s"

text \<open>
  The code units removed by \<open>String.prototype.trim\<close>: the WhiteSpace and LineTerminator
  productions of ECMAScript (TAB, LF, VT, FF, CR, SP, NBSP, U+1680, U+2000..U+200A, LS, PS,
  U+202F, U+205F, U+3000, U+FEFF).
\<close>

definition isWhiteSpace :: "nat \<Rightarrow> bool" where
  "isWhiteSpace c \<longleftrightarrow>
     c \<in> {9, 10, 11, 12, 13, 32, 160, 5760, 8232, 8233, 8239, 8287, 12288, 65279}
     \<or> (8192 \<le> c \<and> c \<le> 8202)"

definition trim :: "jsstring \<Rightarrow> jsstring" where
  "trim s = rev (dropWhile isWhiteSpace (rev (dropWhile isWhiteSpace s)))"

text \<open>
  \<open>URLSearchParams\<close> takes its values as scalar value strings: a surrogate code unit that is
  not part of a pair (a high surrogate followed by a low one) is replaced by U+FFFD.
\<close>

definition isHighSurrogate :: "nat \<Rightarrow> bool" where
  "isHighSurrogate c \<longleftrightarrow> 55296 \<le> c \<and> c \<le> 56319"

definition isLowSurrogate :: "nat \<Rightarrow> bool" where
  "isLowSurrogate c \<longleftrightarrow> 56320 \<le> c \<and> c \<le> 57343"

fun toUSVString :: "jsstring \<Rightarrow> jsstring" where
  "toUSVString [] = []"
| "toUSVString [c] = (if isHighSurrogate c \<or> isLowSurrogate c then [65533] else [c])"
| "toUSVString (c # d # cs) =
     (if isHighSurrogate c \<and> isLowSurrogate d then c # d # toUSVString cs
      else if isHighSurrogate c \<or> isLowSurrogate c then 65533 # toUSVString (d # cs)
      else c # toUSVString (d # cs))"

text \<open>
  The decimal digits of a natural number: what a template literal \<open>`${n}`\<close> prints for a
  non-negative integer below \<open>2^53\<close>.
\<close>

fun digits :: "nat \<Rightarrow> jsstring" where
  "digits n = (if n < 10 then [48 + n] else digits (n div 10) @ [48 + n mod 10])"

declare digits.simps [simp del]

section \<open>URL and URLSearchParams\<close>

text \<open>
  \<open>URLSearchParams\<close> is an ordered list of name-value pairs. \<open>set\<close> overwrites the first
  pair of that name and removes the others, or appends a new pair, with the value as a
  scalar value string; \<open>get\<close> reads the first pair of that name. The names set here are
  ASCII.
\<close>

type_synonym URLSearchParams = "(string \<times> jsstring) list"

fun sp_set :: "string \<Rightarrow> jsstring \<Rightarrow> URLSearchParams \<Rightarrow> URLSearchParams" where
  "sp_set k v [] = [(k, toUSVString v)]"
| "sp_set k v (p # ps) =
     (if fst p = k then (k, toUSVString v) # filter (\<lambda>q. fst q \<noteq> k) ps
      else p # sp_set k v ps)"

definition sp_get :: "string \<Rightarrow> URLSearchParams \<Rightarrow> jsstring option" where
  "sp_get k ps = map_of ps k"

record URL =
  base :: jsstring
  searchParams :: URLSearchParams

text \<open>The module-level object of the products table: \<open>new URL(API_URL, window.location.origin)\<close>.\<close>

definition API_URL :: jsstring where
  "API_URL = ascii ''http://localhost:5000/api/products''"

definition url :: URL where
  "url = \<lparr>base = API_URL, searchParams = []\<rparr>"

section \<open>useGet\<close>

record MRT_PaginationState =
  pageIndex :: nat
  pageSize :: nat

record 'v MRT_ColumnFilter =
  filter_id :: jsstring
  filter_value :: 'v

record MRT_ColumnSort =
  sort_id :: jsstring
  desc :: bool

type_synonym 'v MRT_ColumnFiltersState = "'v MRT_ColumnFilter list"
type_synonym MRT_SortingState = "MRT_ColumnSort list"

text \<open>\<open>x ?? []\<close>: the list, or the empty list for \<open>null\<close>.\<close>

definition orEmpty :: "'a list option \<Rightarrow> 'a list" where
  "orEmpty x = (case x of None \<Rightarrow> [] | Some xs \<Rightarrow> xs)"

text \<open>
  The body of \<open>queryFn\<close> up to the call of \<open>fetch\<close>. \<open>fetchURL\<close> is the very object passed
  in, so the function returns that object as the assignments leave it: this is both the URL
  that is fetched and the state in which the next call finds the object. \<open>JSON.stringify\<close>
  is the platform's, and is a parameter (one per argument type). In the condition
  \<open>globalFilter && globalFilter.trim() !== ''\<close>, \<open>null\<close> and the empty string are falsy.

  The page index and the page size are non-negative integers held in doubles. Below
  \<open>2^53\<close> their product is exact and a template literal prints an integer by its
  digits; from \<open>2^53\<close> on the product is rounded and printed by the platform's
  \<open>Number::toString\<close>, the parameter \<open>toString\<close>, which is given the exact value.
\<close>

definition template_product :: "(rat \<Rightarrow> jsstring) \<Rightarrow> nat \<Rightarrow> nat \<Rightarrow> jsstring" where
  "template_product toString a b =
     (if a * b < 2 ^ 53 then digits (a * b) else toString (of_nat a * of_nat b))"

definition template_number :: "(rat \<Rightarrow> jsstring) \<Rightarrow> nat \<Rightarrow> jsstring" where
  "template_number toString b = (if b < 2 ^ 53 then digits b else toString (of_nat b))"

definition queryFn ::
  "(rat \<Rightarrow> jsstring) \<Rightarrow>
   ('v MRT_ColumnFiltersState \<Rightarrow> jsstring) \<Rightarrow> (MRT_SortingState \<Rightarrow> jsstring) \<Rightarrow>
   URL \<Rightarrow> MRT_PaginationState \<Rightarrow> 'v MRT_ColumnFiltersState option \<Rightarrow> jsstring option \<Rightarrow>
   MRT_SortingState option \<Rightarrow> URL" where
  "queryFn toString stringify_filters stringify_sorting fetchURL pagination columnFilters
     globalFilter sorting =
     (let sp1 = sp_set ''start''
                  (template_product toString (pageIndex pagination) (pageSize pagination))
                  (searchParams fetchURL);
          sp2 = sp_set ''size'' (template_number toString (pageSize pagination)) sp1;
          sp3 = sp_set ''filters'' (stringify_filters (orEmpty columnFilters)) sp2;
          sp4 = (case globalFilter of
                   None \<Rightarrow> sp3
                 | Some g \<Rightarrow>
                     if g \<noteq> [] \<and> trim g \<noteq> []
                     then sp_set ''globalFilter'' (ascii ''%'' @ g @ ascii ''%'') sp3
                     else sp3);
          sp5 = sp_set ''sorting'' (stringify_sorting (orEmpty sorting)) sp4
      in fetchURL\<lparr>searchParams := sp5\<rparr>)"

text \<open>
  The query key under which \<open>useGet\<close> caches a page. A key is an array; its parts here are
  strings, numbers, \<open>null\<close>, the column-filter array and the sorting array.
\<close>

datatype 'v QueryKeyPart =
    KString jsstring
  | KNumber nat
  | KNull
  | KFilters "'v MRT_ColumnFiltersState"
  | KSorting MRT_SortingState

type_synonym 'v QueryKey = "'v QueryKeyPart list"

definition useGet_queryKey ::
  "MRT_PaginationState \<Rightarrow> 'v MRT_ColumnFiltersState option \<Rightarrow> jsstring option \<Rightarrow>
   MRT_SortingState option \<Rightarrow> 'v QueryKey" where
  "useGet_queryKey pagination columnFilters globalFilter sorting =
     [KString (ascii ''table-data''),
      (case columnFilters of None \<Rightarrow> KNull | Some f \<Rightarrow> KFilters f),
      (case globalFilter of None \<Rightarrow> KNull | Some g \<Rightarrow> KString g),
      KNumber (pageIndex pagination),
      KNumber (pageSize pagination),
      (case sorting of None \<Rightarrow> KNull | Some s \<Rightarrow> KSorting s)]"

section \<open>The query cache\<close>

text \<open>
  The query library, not the repository, decides which cached queries a filter key
  reaches: \<open>invalidateQueries({queryKey})\<close> marks every query whose key has the filter key
  as a partial match, which for arrays means that each element of the filter key matches
  the element of the query key at the same index. Two strings, numbers or \<open>null\<close>s match
  when they are equal; a nested array matches when it is in turn matched index by index.
\<close>

fun partialMatchPart :: "'v QueryKeyPart \<Rightarrow> 'v QueryKeyPart \<Rightarrow> bool" where
  "partialMatchPart (KFilters a) (KFilters b) = prefix b a"
| "partialMatchPart (KSorting a) (KSorting b) = prefix b a"
| "partialMatchPart a b = (a = b)"

definition partialMatchKey :: "'v QueryKey \<Rightarrow> 'v QueryKey \<Rightarrow> bool" where
  "partialMatchKey a b \<longleftrightarrow>
     length b \<le> length a \<and> list_all2 partialMatchPart (take (length b) a) b"

record ('v, 'j) Query =
  queryKey :: "'v QueryKey"
  cached :: "'j option"
  isInvalidated :: bool

type_synonym ('v, 'j) QueryCache = "('v, 'j) Query list"

definition invalidateQueries :: "'v QueryKey \<Rightarrow> ('v, 'j) QueryCache \<Rightarrow> ('v, 'j) QueryCache" where
  "invalidateQueries filterKey cache =
     map (\<lambda>q. if partialMatchKey (queryKey q) filterKey then q\<lparr>isInvalidated := True\<rparr> else q)
       cache"

text \<open>\<open>onSuccess\<close> of \<open>useCreateProduct\<close>, \<open>useUpdateProduct\<close> and \<open>useDeleteProduct\<close>.\<close>

definition products_onSuccess :: "('v, 'j) QueryCache \<Rightarrow> ('v, 'j) QueryCache" where
  "products_onSuccess cache = invalidateQueries [KString (ascii ''products'')] cache"

section \<open>Fetching and settling a query\<close>

text \<open>
  \<open>fetch\<close> rejects on a network failure and resolves with a response for every HTTP
  status. \<open>response.json()\<close> rejects when the body is not JSON: \<open>json_body\<close> is then
  \<open>None\<close>. \<open>response.ok\<close> is a status from 200 to 299.
\<close>

record 'j Response =
  status :: nat
  json_body :: "'j option"

datatype 'j FetchOutcome = Rejected | Resolved "'j Response"

definition ok :: "'j Response \<Rightarrow> bool" where
  "ok response \<longleftrightarrow> 200 \<le> status response \<and> status response \<le> 299"

datatype RequestError = TypeError | SyntaxError | Error jsstring

text \<open>
  The rest of \<open>queryFn\<close>, after \<open>fetch\<close>: \<open>await response.json()\<close> is returned as it is.
\<close>

definition queryFn_result :: "'j FetchOutcome \<Rightarrow> RequestError + 'j" where
  "queryFn_result outcome =
     (case outcome of
        Rejected \<Rightarrow> Inl TypeError
      | Resolved response \<Rightarrow>
          (case json_body response of None \<Rightarrow> Inl SyntaxError | Some json \<Rightarrow> Inr json))"

text \<open>
  What \<open>useQuery\<close> reports once \<open>queryFn\<close> has settled for the current key (the library's
  part): a rejection sets \<open>isError\<close> and keeps the data of the query, a resolution stores
  the value as the data.
\<close>

record 'j UseQueryResult =
  data :: "'j option"
  isError :: bool

definition useQuery_settle :: "'j UseQueryResult \<Rightarrow> RequestError + 'j \<Rightarrow> 'j UseQueryResult" where
  "useQuery_settle previous result =
     (case result of
        Inl e \<Rightarrow> previous\<lparr>isError := True\<rparr>
      | Inr json \<Rightarrow> \<lparr>data = Some json, isError = False\<rparr>)"

definition useGet_settle :: "'j UseQueryResult \<Rightarrow> 'j FetchOutcome \<Rightarrow> 'j UseQueryResult" where
  "useGet_settle previous outcome = useQuery_settle previous (queryFn_result outcome)"

text \<open>
  The response envelope \<open>{data, meta: {totalRowCount}}\<close>; a JSON body of another shape
  has neither property. The table destructures \<open>data: { data = [], meta } = {}\<close>.
\<close>

record 'row ApiResponse =
  response_data :: "'row list option"
  meta_totalRowCount :: "nat option"

definition table_data :: "'row ApiResponse UseQueryResult \<Rightarrow> 'row list" where
  "table_data result =
     (case data result of
        None \<Rightarrow> []
      | Some body \<Rightarrow> (case response_data body of None \<Rightarrow> [] | Some rows \<Rightarrow> rows))"

section \<open>Mutations\<close>

datatype Method = GET | POST | PUT | DELETE

record 'b Request =
  request_method :: Method
  request_url :: jsstring
  body :: "'b option"

text \<open>
  Every \<open>mutationFn\<close> of the tables ends the same way: it throws
  \<open>Error(message)\<close> when \<open>response.ok\<close> is false and returns \<open>response.json()\<close>
  otherwise.
\<close>

definition mutation_result :: "jsstring \<Rightarrow> 'j FetchOutcome \<Rightarrow> RequestError + 'j" where
  "mutation_result message outcome =
     (case outcome of
        Rejected \<Rightarrow> Inl TypeError
      | Resolved response \<Rightarrow>
          if \<not> ok response then Inl (Error message)
          else (case json_body response of None \<Rightarrow> Inl SyntaxError | Some json \<Rightarrow> Inr json))"

text \<open>
  A validation-error object: property names with their messages, in insertion order.
  \<open>errors.k = v\<close> overwrites the property or adds it; the save handlers test
  \<open>Object.values(errors).some((error) => error)\<close>, and the empty string is falsy.
\<close>

type_synonym ValidationErrors = "(string \<times> jsstring) list"

fun assign :: "string \<Rightarrow> jsstring \<Rightarrow> ValidationErrors \<Rightarrow> ValidationErrors" where
  "assign k v [] = [(k, v)]"
| "assign k v (p # ps) = (if fst p = k then (k, v) # ps else p # assign k v ps)"

definition some_error :: "ValidationErrors \<Rightarrow> bool" where
  "some_error errors \<longleftrightarrow> list_ex (\<lambda>p. snd p \<noteq> []) errors"

text \<open>
  What a save handler has done when it returns or throws: the validation errors it has
  set, the requests it has sent, and whether it reached the call that closes the row.
\<close>

record 'b Saved =
  validationErrors :: ValidationErrors
  requests :: "'b Request list"
  rowClosed :: bool

text \<open>\<open>!s\<close> for a string property that may be absent.\<close>

definition not_string :: "jsstring option \<Rightarrow> bool" where
  "not_string s \<longleftrightarrow> (case s of None \<Rightarrow> True | Some t \<Rightarrow> t = [])"

section \<open>The products table\<close>

record Product =
  product_id :: "nat option"
  product_name :: "jsstring option"
  supplier :: "jsstring option"
  item_number :: "jsstring option"

text \<open>The \<open>required\<close> flag of \<open>muiEditTextFieldProps\<close> of each editable column.\<close>

definition columns_required :: "(string \<times> bool) list" where
  "columns_required = [(''product_name'', True), (''supplier'', False), (''item_number'', True)]"

definition product_name_required :: jsstring where
  "product_name_required = [1053, 1072, 1080, 1084, 1077, 1085, 1086, 1074, 1072, 1085, 1080,
     1077, 32, 1086, 1073, 1103, 1079, 1072, 1090, 1077, 1083, 1100, 1085, 1086]"

definition supplier_required :: jsstring where
  "supplier_required = [1055, 1086, 1089, 1090, 1072, 1074, 1097, 1080, 1082, 32, 1086, 1073,
     1103, 1079, 1072, 1090, 1077, 1083, 1077, 1085]"

definition item_number_required :: jsstring where
  "item_number_required = [1053, 1086, 1084, 1077, 1085, 1082, 1083, 1072, 1090, 1091, 1088,
     1085, 1099, 1081, 32, 1085, 1086, 1084, 1077, 1088, 32, 1086, 1073, 1103, 1079, 1072, 1090,
     1077, 1083, 1077, 1085]"

definition validateProduct :: "Product \<Rightarrow> ValidationErrors" where
  "validateProduct product =
     [(''product_name'', if not_string (product_name product) then product_name_required else []),
      (''supplier'', if not_string (supplier product) then supplier_required else []),
      (''item_number'', if not_string (item_number product) then item_number_required else [])]"

definition not_ok_message :: jsstring where
  "not_ok_message = ascii ''Network response was not ok''"

text \<open>
  \<open>createProduct\<close> and \<open>updateProduct\<close>: the request that is sent, and how the promise
  settles on the server's answer. \<open>`${API_URL}/${product_id}`\<close> prints an absent id as
  \<open>undefined\<close>.
\<close>

definition createProduct :: "Product \<Rightarrow> 'j FetchOutcome \<Rightarrow> Product Request \<times> (RequestError + 'j)" where
  "createProduct newProduct outcome =
     (\<lparr>request_method = POST, request_url = API_URL, body = Some newProduct\<rparr>,
      mutation_result not_ok_message outcome)"

definition updateProduct :: "Product \<Rightarrow> 'j FetchOutcome \<Rightarrow> Product Request \<times> (RequestError + 'j)" where
  "updateProduct updatedProduct outcome =
     (\<lparr>request_method = PUT,
       request_url = API_URL @ ascii ''/'' @
         (case product_id updatedProduct of None \<Rightarrow> ascii ''undefined'' | Some n \<Rightarrow> digits n),
       body = Some updatedProduct\<rparr>,
      mutation_result not_ok_message outcome)"

definition handleCreateProduct :: "Product \<Rightarrow> 'j FetchOutcome \<Rightarrow> Product Saved" where
  "handleCreateProduct values outcome =
     (let newValidationErrors = validateProduct values in
      if some_error newValidationErrors
      then \<lparr>validationErrors = newValidationErrors, requests = [], rowClosed = False\<rparr>
      else (case createProduct values outcome of
              (request, Inl e) \<Rightarrow> \<lparr>validationErrors = [], requests = [request], rowClosed = False\<rparr>
            | (request, Inr created) \<Rightarrow>
                \<lparr>validationErrors = [], requests = [request], rowClosed = True\<rparr>))"

definition handleSaveProduct :: "Product \<Rightarrow> 'j FetchOutcome \<Rightarrow> Product Saved" where
  "handleSaveProduct values outcome =
     (let newValidationErrors = validateProduct values in
      if some_error newValidationErrors
      then \<lparr>validationErrors = newValidationErrors, requests = [], rowClosed = False\<rparr>
      else (case updateProduct values outcome of
              (request, Inl e) \<Rightarrow> \<lparr>validationErrors = [], requests = [request], rowClosed = False\<rparr>
            | (request, Inr updated) \<Rightarrow>
                \<lparr>validationErrors = [], requests = [request], rowClosed = True\<rparr>))"

section \<open>Numbers\<close>

text \<open>
  A JavaScript number is an IEEE double: \<open>NaN\<close>, an infinity, or a finite value, held as
  the rational it denotes (the sign of a zero is not kept: no operation modelled here
  tells the two zeros apart). The result of an arithmetic operation on finite values is the
  exact result rounded to the nearest double, ties to the even significand.

  \<open>bits k\<close> is the length of the binary numeral of a positive integer, so \<open>binade r\<close> is
  the exponent \<open>e\<close> with \<open>2^e \<le> |r| < 2^(e+1)\<close>. A double has a significand of 53 bits and
  an exponent from -1022 (below it the spacing of the subnormal numbers stays \<open>2^-1074\<close>) to
  1023; a result that rounds to \<open>2^1024\<close> or beyond is an infinity.
\<close>

datatype number = NaN | PosInfinity | NegInfinity | Num rat

function bits :: "int \<Rightarrow> int" where
  "bits k = (if k \<le> 0 then 0 else bits (k div 2) + 1)"
  by pat_completeness auto
termination
  by (relation "measure nat") auto

declare bits.simps [simp del]

definition binade :: "rat \<Rightarrow> int" where
  "binade r =
     (if 1 \<le> \<bar>r\<bar> then bits \<lfloor>\<bar>r\<bar>\<rfloor> - 1 else - bits (\<lceil>1 / \<bar>r\<bar>\<rceil> - 1))"

definition pow2 :: "int \<Rightarrow> rat" where
  "pow2 e = (if 0 \<le> e then 2 ^ nat e else 1 / 2 ^ nat (- e))"

definition round_half_even :: "rat \<Rightarrow> int" where
  "round_half_even q =
     (let f = \<lfloor>q\<rfloor>
      in if q - of_int f < 1 / 2 then f
         else if 1 / 2 < q - of_int f then f + 1
         else if even f then f else f + 1)"

definition round_double :: "rat \<Rightarrow> number" where
  "round_double r =
     (if r = 0 then Num 0
      else (let e = max (binade r) (- 1022);
                n = round_half_even (\<bar>r\<bar> / pow2 (e - 52))
            in if 1023 < e \<or> (e = 1023 \<and> 2 ^ 53 \<le> n)
               then (if r < 0 then NegInfinity else PosInfinity)
               else Num ((if r < 0 then - 1 else 1) * of_int n * pow2 (e - 52))))"

text \<open>
  \<open>!x\<close> holds of an absent property, of \<open>NaN\<close> and of zero; \<open>isNaN(undefined)\<close> is true
  and \<open>undefined * 100\<close> is \<open>NaN\<close>.
\<close>

definition not_number :: "number option \<Rightarrow> bool" where
  "not_number x \<longleftrightarrow>
     (case x of None \<Rightarrow> True | Some NaN \<Rightarrow> True | Some (Num r) \<Rightarrow> r = 0 | Some y \<Rightarrow> False)"

definition isNaN :: "number option \<Rightarrow> bool" where
  "isNaN x \<longleftrightarrow> (case x of None \<Rightarrow> True | Some NaN \<Rightarrow> True | Some y \<Rightarrow> False)"

definition times100 :: "number option \<Rightarrow> number" where
  "times100 x =
     (case x of
        None \<Rightarrow> NaN
      | Some NaN \<Rightarrow> NaN
      | Some PosInfinity \<Rightarrow> PosInfinity
      | Some NegInfinity \<Rightarrow> NegInfinity
      | Some (Num r) \<Rightarrow> round_double (r * 100))"

definition Number_isInteger :: "number \<Rightarrow> bool" where
  "Number_isInteger x \<longleftrightarrow> (case x of Num r \<Rightarrow> of_int \<lfloor>r\<rfloor> = r | y \<Rightarrow> False)"

section \<open>The products-income table\<close>

record ProductsIncome =
  id' :: "nat option"
  income_note_id :: "number option"
  warehouse_id :: "number option"
  contractor :: "jsstring option"
  total :: "number option"
  date :: "jsstring option"

definition income_note_id_required :: jsstring where
  "income_note_id_required = [1053, 1086, 1084, 1077, 1088, 32, 1085, 1072, 1082, 1083, 1072,
     1076, 1085, 1086, 1081, 32, 1086, 1073, 1103, 1079, 1072, 1090, 1077, 1083, 1077, 1085]"

definition warehouse_id_required :: jsstring where
  "warehouse_id_required = [1057, 1082, 1083, 1072, 1076, 32, 1086, 1073, 1103, 1079, 1072,
     1090, 1077, 1083, 1077, 1085]"

definition contractor_required :: jsstring where
  "contractor_required = [1050, 1086, 1085, 1090, 1088, 1072, 1075, 1077, 1085, 1090, 32, 1086,
     1073, 1103, 1079, 1072, 1090, 1077, 1083, 1077, 1085]"

definition total_required :: jsstring where
  "total_required = [1057, 1091, 1084, 1084, 1072, 32, 1086, 1073, 1103, 1079, 1072, 1090, 1077,
     1083, 1100, 1085, 1072]"

definition date_required :: jsstring where
  "date_required = [1044, 1072, 1090, 1072, 32, 1086, 1073, 1103, 1079, 1072, 1090, 1077, 1083,
     1100, 1085, 1072]"

definition validateProductsIncome :: "ProductsIncome \<Rightarrow> ValidationErrors" where
  "validateProductsIncome productsIncome =
     (let errors = [];
          errors = (if not_number (income_note_id productsIncome)
                    then assign ''income_note_id'' income_note_id_required errors else errors);
          errors = (if not_number (warehouse_id productsIncome)
                    then assign ''warehouse_id'' warehouse_id_required errors else errors);
          errors = (if not_string (contractor productsIncome)
                    then assign ''contractor'' contractor_required errors else errors);
          errors = (if not_number (total productsIncome)
                    then assign ''total'' total_required errors
                    else if isNaN (total productsIncome)
                            \<or> \<not> Number_isInteger (times100 (total productsIncome))
                    then assign ''total'' [] errors
                    else errors);
          errors = (if not_string (date productsIncome)
                    then assign ''date'' date_required errors else errors)
      in errors)"

definition products_income_API_URL :: jsstring where
  "products_income_API_URL = ascii ''http://localhost:5000/api/products_income''"

text \<open>
  The body of both requests is the row with its date replaced by
  \<open>format(parse(date, 'yyyy-MM-dd', new Date()), 'yyyy-MM-dd')\<close>, or by \<open>null\<close> when the
  date is falsy. The date library is a parameter.
\<close>

definition with_date :: "(jsstring \<Rightarrow> jsstring) \<Rightarrow> ProductsIncome \<Rightarrow> ProductsIncome" where
  "with_date reformat row =
     row\<lparr>date := (case date row of
                    None \<Rightarrow> None
                  | Some d \<Rightarrow> if d = [] then None else Some (reformat d))\<rparr>"

definition createProductsIncome ::
  "(jsstring \<Rightarrow> jsstring) \<Rightarrow> ProductsIncome \<Rightarrow> 'j FetchOutcome \<Rightarrow>
   ProductsIncome Request \<times> (RequestError + 'j)" where
  "createProductsIncome reformat newProductsIncomeInfo outcome =
     (\<lparr>request_method = POST, request_url = products_income_API_URL,
       body = Some (with_date reformat newProductsIncomeInfo)\<rparr>,
      mutation_result (ascii ''Error creating ProductsIncome'') outcome)"

definition updateProductsIncome ::
  "(jsstring \<Rightarrow> jsstring) \<Rightarrow> ProductsIncome \<Rightarrow> 'j FetchOutcome \<Rightarrow>
   ProductsIncome Request \<times> (RequestError + 'j)" where
  "updateProductsIncome reformat updatedProductsIncome outcome =
     (\<lparr>request_method = PUT,
       request_url = products_income_API_URL @ ascii ''/'' @
         (case id' updatedProductsIncome of None \<Rightarrow> ascii ''undefined'' | Some n \<Rightarrow> digits n),
       body = Some (with_date reformat updatedProductsIncome)\<rparr>,
      mutation_result (ascii ''Error updating ProductsIncome'') outcome)"

definition handleCreateProductsIncome ::
  "(jsstring \<Rightarrow> jsstring) \<Rightarrow> ProductsIncome \<Rightarrow> 'j FetchOutcome \<Rightarrow> ProductsIncome Saved" where
  "handleCreateProductsIncome reformat values outcome =
     (let newValidationErrors = validateProductsIncome values in
      if some_error newValidationErrors
      then \<lparr>validationErrors = newValidationErrors, requests = [], rowClosed = False\<rparr>
      else (case createProductsIncome reformat values outcome of
              (request, Inl e) \<Rightarrow> \<lparr>validationErrors = [], requests = [request], rowClosed = False\<rparr>
            | (request, Inr created) \<Rightarrow>
                \<lparr>validationErrors = [], requests = [request], rowClosed = True\<rparr>))"

definition handleSaveProductsIncome ::
  "(jsstring \<Rightarrow> jsstring) \<Rightarrow> ProductsIncome \<Rightarrow> 'j FetchOutcome \<Rightarrow> ProductsIncome Saved" where
  "handleSaveProductsIncome reformat values outcome =
     (let newValidationErrors = validateProductsIncome values in
      if some_error newValidationErrors
      then \<lparr>validationErrors = newValidationErrors, requests = [], rowClosed = False\<rparr>
      else (case updateProductsIncome reformat values outcome of
              (request, Inl e) \<Rightarrow> \<lparr>validationErrors = [], requests = [request], rowClosed = False\<rparr>
            | (request, Inr updated) \<Rightarrow>
                \<lparr>validationErrors = [], requests = [request], rowClosed = True\<rparr>))"

text \<open>A row whose total, 0.125, has three decimals; \<open>0.125 * 100 = 12.5\<close> is exact in doubles.\<close>

definition three_decimals_row :: ProductsIncome where
  "three_decimals_row =
     \<lparr>id' = Some 3, income_note_id = Some (Num 5), warehouse_id = Some (Num 1),
      contractor = Some (ascii ''Acme''), total = Some (Num (1 / 8)),
      date = Some (ascii ''2024-01-01'')\<rparr>"

section \<open>The outcome form\<close>

record NewProductsOutcome =
  outcome_note_id :: number
  warehouse_id :: number
  contractor :: jsstring
  total :: number
  date :: jsstring

text \<open>The created record as the server returns it: the submitted fields and the generated id.\<close>

record CreatedProductsOutcome = NewProductsOutcome +
  id' :: nat

record NewOutcomeNote =
  item_number :: jsstring
  price :: number
  quantity :: number
  total :: number
  outcome_note_id :: number

record OutcomeFormData =
  productsOutcome :: NewProductsOutcome
  outcomeNotes :: "NewOutcomeNote list"

datatype OutcomeBody = Header NewProductsOutcome | Notes "NewOutcomeNote list"

definition outcome_API_URL :: jsstring where
  "outcome_API_URL = ascii ''http://localhost:5000/api''"

text \<open>
  \<open>mutationFn\<close> of \<open>createProductsOutcomeMutation\<close>. The two answers of the server are
  arguments; the second is looked at only when the second request is sent. The result is
  the list of requests sent, in order, and the value or error of the promise.
\<close>

definition createProductsOutcome_mutationFn ::
  "OutcomeFormData \<Rightarrow> 'j FetchOutcome \<Rightarrow> 'k FetchOutcome \<Rightarrow>
   OutcomeBody Request list \<times> (RequestError + 'j)" where
  "createProductsOutcome_mutationFn form outcome1 outcome2 =
     (let request1 = \<lparr>request_method = POST, request_url = outcome_API_URL @ ascii ''/products_outcome'',
                       body = Some (Header (productsOutcome form))\<rparr>
      in case outcome1 of
           Rejected \<Rightarrow> ([request1], Inl TypeError)
         | Resolved response1 \<Rightarrow>
             if \<not> ok response1
             then ([request1], Inl (Error (ascii ''Failed to create products outcome'')))
             else (case json_body response1 of
                     None \<Rightarrow> ([request1], Inl SyntaxError)
                   | Some createdProductsOutcome \<Rightarrow>
                       (let outcomeNotesWithId =
                              map (\<lambda>note. note\<lparr>NewOutcomeNote.outcome_note_id :=
                                     NewProductsOutcome.outcome_note_id (productsOutcome form)\<rparr>)
                                (outcomeNotes form);
                            request2 = \<lparr>request_method = POST,
                                        request_url = outcome_API_URL @ ascii ''/outcome_notes'',
                                        body = Some (Notes outcomeNotesWithId)\<rparr>
                        in case outcome2 of
                             Rejected \<Rightarrow> ([request1, request2], Inl TypeError)
                           | Resolved response2 \<Rightarrow>
                               if \<not> ok response2
                               then ([request1, request2],
                                     Inl (Error (ascii ''Failed to create outcome notes'')))
                               else ([request1, request2], Inr createdProductsOutcome))))"

text \<open>
  A submission: the note number of the form is still its initial 0, and there is one line;
  the server creates the header with the row id 42 and the note number 15, and answers
  with the created record.
\<close>

definition untouched_form :: OutcomeFormData where
  "untouched_form =
     \<lparr>productsOutcome =
        \<lparr>NewProductsOutcome.outcome_note_id = Num 0, warehouse_id = Num 1,
         contractor = ascii ''Acme'', NewProductsOutcome.total = Num 10,
         date = ascii ''2024-01-01''\<rparr>,
      outcomeNotes =
        [\<lparr>item_number = ascii ''A-1'', price = Num 5, quantity = Num 2, total = Num 10,
          outcome_note_id = Num 0\<rparr>]\<rparr>"

definition created15 :: "CreatedProductsOutcome Response" where
  "created15 =
     \<lparr>status = 201,
      json_body = Some \<lparr>NewProductsOutcome.outcome_note_id = Num 15, warehouse_id = Num 1,
                        contractor = ascii ''Acme'', NewProductsOutcome.total = Num 10,
                        date = ascii ''2024-01-01'', id' = 42\<rparr>\<rparr>"

text \<open>
  The note number of the created record in a response, and the note numbers carried by the
  line items of a request.
\<close>

definition created_note_id :: "CreatedProductsOutcome Response \<Rightarrow> number option" where
  "created_note_id response = map_option NewProductsOutcome.outcome_note_id (json_body response)"

definition posted_note_ids :: "OutcomeBody Request \<Rightarrow> number list" where
  "posted_note_ids request =
     (case body request of
        Some (Notes notes) \<Rightarrow> map NewOutcomeNote.outcome_note_id notes
      | _ \<Rightarrow> [])"

section \<open>The report screen\<close>

datatype ReportType = Inventory | Revenue | Cost

datatype GroupBy = Group_warehouse_id | Group_item_number

datatype SortBy =
  Sort_warehouse_id | Sort_item_number | Sort_product_name | Sort_total_remaining | Sort_total

record ReportParams =
  warehouseId :: "number option"
  startDate :: jsstring
  endDate :: jsstring
  groupBy :: GroupBy
  sortBy :: SortBy

record ReportData =
  warehouse_id :: number
  item_number :: jsstring
  product_name :: jsstring
  total_remaining :: "number option"
  total :: "number option"

record ReportState =
  reportType :: ReportType
  reportParams :: ReportParams
  reportData :: "ReportData list"

text \<open>
  \<open>handleReportTypeChange\<close>: the three state setters, applied to the state of the render
  in which the event fires.
\<close>

definition handleReportTypeChange :: "ReportType \<Rightarrow> ReportState \<Rightarrow> ReportState" where
  "handleReportTypeChange newReportType state =
     state\<lparr>reportType := newReportType,
           reportData := [],
           reportParams :=
             (if newReportType = Inventory \<and> sortBy (reportParams state) = Sort_total
              then (reportParams state)\<lparr>sortBy := Sort_total_remaining\<rparr>
              else if newReportType \<noteq> Inventory
                      \<and> sortBy (reportParams state) = Sort_total_remaining
              then (reportParams state)\<lparr>sortBy := Sort_total\<rparr>
              else reportParams state)\<rparr>"

text \<open>The menu items of the sort-by select for a report type \<open>kind\<close>.\<close>

definition sortBy_options :: "ReportType \<Rightarrow> SortBy list" where
  "sortBy_options kind =
     [Sort_warehouse_id, Sort_item_number, Sort_product_name]
     @ (if kind = Inventory then [Sort_total_remaining] else [])
     @ (if kind \<noteq> Inventory then [Sort_total] else [])"


fun add :: "number \<Rightarrow> number \<Rightarrow> number" where
  "add (Num a) (Num b) = round_double (a + b)"
| "add NaN b = NaN"
| "add a NaN = NaN"
| "add PosInfinity NegInfinity = NaN"
| "add NegInfinity PosInfinity = NaN"
| "add PosInfinity b = PosInfinity"
| "add NegInfinity b = NegInfinity"
| "add (Num a) b = b"






text \<open>Three revenue rows with totals 100.00, 30.50 and 19.50.\<close>

definition three_rows :: "ReportData list" where
  "three_rows =
     [\<lparr>warehouse_id = Num 1, item_number = ascii ''A-1'', product_name = ascii ''Bolt'',
       total_remaining = None, total = Some (Num 100)\<rparr>,
      \<lparr>warehouse_id = Num 1, item_number = ascii ''A-2'', product_name = ascii ''Nut'',
       total_remaining = None, total = Some (Num (61 / 2))\<rparr>,
      \<lparr>warehouse_id = Num 2, item_number = ascii ''A-3'', product_name = ascii ''Washer'',
       total_remaining = None, total = Some (Num (39 / 2))\<rparr>]"



text \<open>A report screen of type \<open>kind\<close> that shows the three rows, with sort key \<open>key\<close>.\<close>

definition showing :: "ReportType \<Rightarrow> SortBy \<Rightarrow> ReportState" where
  "showing kind key =
     \<lparr>reportType = kind,
      reportParams = \<lparr>warehouseId = None, startDate = ascii ''2024-01-01'',
                      endDate = ascii ''2024-01-31'', groupBy = Group_warehouse_id, sortBy = key\<rparr>,
      reportData = three_rows\<rparr>"

section \<open>Properties of the request URL\<close>

lemma template_small:
  "template_product toString 0 10 = ascii ''0''"
  "template_product toString 2 10 = ascii ''20''"
  "template_number toString 10 = ascii ''10''"
  by (simp_all add: template_product_def template_number_def digits.simps ascii_def)

lemma trim_whitespace: "trim [32, 9, 160] = []"
  by (simp add: trim_def isWhiteSpace_def)

text \<open>
  C1. The parameters of the fetched URL do not follow the mapping on every fetch. After a
  fetch with global filter \<open>abc\<close>, a fetch of the third page with a global filter of
  white space only (a space, a tab and a no-break space, which \<open>trim\<close> reduces to the empty
  string) sets \<open>start\<close>, \<open>size\<close>, \<open>filters\<close> and \<open>sorting\<close> as the mapping says, and still
  carries \<open>globalFilter=%abc%\<close>.
\<close>

theorem useGet_whitespace_filter_is_sent:
  "trim [32, 9, 160] = []
   \<and> searchParams
       (queryFn toString stringify_filters stringify_sorting
          (queryFn toString stringify_filters stringify_sorting url
             \<lparr>pageIndex = 0, pageSize = 10\<rparr> None (Some (ascii ''abc'')) None)
          \<lparr>pageIndex = 2, pageSize = 10\<rparr> None (Some [32, 9, 160]) None)
     = [(''start'', ascii ''20''), (''size'', ascii ''10''),
        (''filters'', toUSVString (stringify_filters [])),
        (''globalFilter'', ascii ''%abc%''),
        (''sorting'', toUSVString (stringify_sorting []))]"
  by (simp add: queryFn_def Let_def url_def trim_whitespace orEmpty_def template_small)
     (simp add: trim_def isWhiteSpace_def ascii_def isHighSurrogate_def isLowSurrogate_def)

text \<open>
  C2. The URL object is shared by all fetches of a table and \<open>queryFn\<close> never deletes a
  parameter: after a fetch with global filter \<open>abc\<close>, a fetch with an empty global filter
  still sends \<open>globalFilter=%abc%\<close>.
\<close>

theorem useGet_stale_globalFilter:
  "sp_get ''globalFilter''
     (searchParams
        (queryFn toString stringify_filters stringify_sorting
           (queryFn toString stringify_filters stringify_sorting url
              \<lparr>pageIndex = 0, pageSize = 10\<rparr> (Some []) (Some (ascii ''abc'')) (Some []))
           \<lparr>pageIndex = 0, pageSize = 10\<rparr> (Some []) (Some []) (Some [])))
   = Some (ascii ''%abc%'')"
  by (simp add: queryFn_def Let_def url_def trim_def isWhiteSpace_def sp_get_def ascii_def
      isHighSurrogate_def isLowSurrogate_def)

section \<open>Properties of the cache and of the fetch\<close>

text \<open>
  C3. The list data is cached under a key that starts with \<open>'table-data'\<close>, and the
  mutations of the products table invalidate the key \<open>['products']\<close>: the filter matches
  no key of \<open>useGet\<close>, and a cached products page is left as it was (not invalidated)
  by \<open>onSuccess\<close>.
\<close>

theorem products_onSuccess_misses_useGet_key:
  "\<not> partialMatchKey (useGet_queryKey pagination columnFilters globalFilter sorting)
       [KString (ascii ''products'')]
   \<and> products_onSuccess
       [\<lparr>queryKey = useGet_queryKey pagination columnFilters globalFilter sorting,
         cached = page, isInvalidated = False\<rparr>]
     = [\<lparr>queryKey = useGet_queryKey pagination columnFilters globalFilter sorting,
         cached = page, isInvalidated = False\<rparr>]"
  by (simp add: products_onSuccess_def invalidateQueries_def partialMatchKey_def
      useGet_queryKey_def ascii_def)

text \<open>
  C4. \<open>queryFn\<close> does not look at \<open>response.ok\<close>: a response with status 500 whose body
  is a JSON object without \<open>data\<close> and \<open>meta\<close> settles the query as a success, so
  \<open>isError\<close> is false, and the table, which showed one row, shows none.
\<close>

theorem useGet_status_500_is_success:
  "\<not> ok \<lparr>status = 500, json_body = Some \<lparr>response_data = None, meta_totalRowCount = None\<rparr>\<rparr>
   \<and> table_data \<lparr>data = Some \<lparr>response_data = Some [row], meta_totalRowCount = Some 1\<rparr>,
                  isError = False\<rparr> = [row]
   \<and> isError (useGet_settle
        \<lparr>data = Some \<lparr>response_data = Some [row], meta_totalRowCount = Some 1\<rparr>, isError = False\<rparr>
        (Resolved \<lparr>status = 500,
                   json_body = Some \<lparr>response_data = None, meta_totalRowCount = None\<rparr>\<rparr>)) = False
   \<and> table_data (useGet_settle
        \<lparr>data = Some \<lparr>response_data = Some [row], meta_totalRowCount = Some 1\<rparr>, isError = False\<rparr>
        (Resolved \<lparr>status = 500,
                   json_body = Some \<lparr>response_data = None, meta_totalRowCount = None\<rparr>\<rparr>)) = []"
  by (simp add: ok_def useGet_settle_def useQuery_settle_def queryFn_result_def table_data_def)

section \<open>Properties of the products table\<close>

lemma product_messages_nonempty:
  "product_name_required \<noteq> []" "supplier_required \<noteq> []" "item_number_required \<noteq> []"
  by (simp_all add: product_name_required_def supplier_required_def item_number_required_def)

lemma blocked_handleCreateProduct:
  "some_error (validateProduct values) \<Longrightarrow>
   handleCreateProduct values outcome =
     \<lparr>validationErrors = validateProduct values, requests = [], rowClosed = False\<rparr>"
  by (simp add: handleCreateProduct_def Let_def)

lemma blocked_handleSaveProduct:
  "some_error (validateProduct values) \<Longrightarrow>
   handleSaveProduct values outcome =
     \<lparr>validationErrors = validateProduct values, requests = [], rowClosed = False\<rparr>"
  by (simp add: handleSaveProduct_def Let_def)

text \<open>
  C5. When \<open>product_name\<close> is empty (or absent), \<open>validateProduct\<close> gives
  \<open>product_name\<close> a non-empty message, and both save handlers set the validation errors
  and return without sending any request.
\<close>

theorem empty_product_name_blocks_save:
  assumes "Product.product_name values = Some [] \<or> Product.product_name values = None"
  shows "map_of (validateProduct values) ''product_name'' = Some product_name_required
       \<and> product_name_required \<noteq> []
       \<and> handleCreateProduct values outcome =
           \<lparr>validationErrors = validateProduct values, requests = [], rowClosed = False\<rparr>
       \<and> handleSaveProduct values outcome =
           \<lparr>validationErrors = validateProduct values, requests = [], rowClosed = False\<rparr>"
proof -
  from assms have n: "not_string (Product.product_name values)"
    by (auto simp: not_string_def)
  then have v: "map_of (validateProduct values) ''product_name'' = Some product_name_required"
    by (simp add: validateProduct_def)
  from n have "some_error (validateProduct values)"
    by (simp add: validateProduct_def some_error_def product_messages_nonempty)
  then show ?thesis
    using v by (simp add: blocked_handleCreateProduct blocked_handleSaveProduct
        product_messages_nonempty)
qed

theorem empty_product_name_blocks_save_witness:
  "requests (handleCreateProduct
       \<lparr>product_id = None, Product.product_name = Some [], supplier = Some (ascii ''Acme''),
        Product.item_number = Some (ascii ''A-1'')\<rparr>
       (Resolved \<lparr>status = 201, json_body = Some ()\<rparr>)) = []
   \<and> map_of (validationErrors (handleCreateProduct
       \<lparr>product_id = None, Product.product_name = Some [], supplier = Some (ascii ''Acme''),
        Product.item_number = Some (ascii ''A-1'')\<rparr>
       (Resolved \<lparr>status = 201, json_body = Some ()\<rparr>))) ''product_name''
     = Some product_name_required"
  using empty_product_name_blocks_save
    [of "\<lparr>product_id = None, Product.product_name = Some [], supplier = Some (ascii ''Acme''),
          Product.item_number = Some (ascii ''A-1'')\<rparr>" "Resolved \<lparr>status = 201, json_body = Some ()\<rparr>"]
  by simp

text \<open>
  C10. The \<open>supplier\<close> column is declared \<open>required: false\<close>, yet when \<open>supplier\<close> is
  empty (or absent) \<open>validateProduct\<close> gives it a non-empty message, and both save
  handlers return without sending the create or update request.
\<close>

theorem empty_supplier_blocks_save:
  assumes "supplier values = Some [] \<or> supplier values = None"
  shows "map_of columns_required ''supplier'' = Some False
       \<and> map_of (validateProduct values) ''supplier'' = Some supplier_required
       \<and> supplier_required \<noteq> []
       \<and> requests (handleCreateProduct values outcome) = []
       \<and> requests (handleSaveProduct values outcome) = []
       \<and> validationErrors (handleCreateProduct values outcome) = validateProduct values
       \<and> validationErrors (handleSaveProduct values outcome) = validateProduct values"
proof -
  from assms have n: "not_string (supplier values)"
    by (auto simp: not_string_def)
  then have v: "map_of (validateProduct values) ''supplier'' = Some supplier_required"
    by (simp add: validateProduct_def)
  from n have "some_error (validateProduct values)"
    by (simp add: validateProduct_def some_error_def product_messages_nonempty)
  then show ?thesis
    using v by (simp add: blocked_handleCreateProduct blocked_handleSaveProduct
        product_messages_nonempty columns_required_def)
qed

theorem empty_supplier_blocks_save_witness:
  "requests (handleSaveProduct
       \<lparr>product_id = Some 7, Product.product_name = Some (ascii ''Bolt''), supplier = Some [],
        Product.item_number = Some (ascii ''A-1'')\<rparr>
       (Resolved \<lparr>status = 200, json_body = Some ()\<rparr>)) = []
   \<and> map_of (validationErrors (handleSaveProduct
       \<lparr>product_id = Some 7, Product.product_name = Some (ascii ''Bolt''), supplier = Some [],
        Product.item_number = Some (ascii ''A-1'')\<rparr>
       (Resolved \<lparr>status = 200, json_body = Some ()\<rparr>))) ''supplier''
     = Some supplier_required"
  using empty_supplier_blocks_save
    [of "\<lparr>product_id = Some 7, Product.product_name = Some (ascii ''Bolt''), supplier = Some [],
          Product.item_number = Some (ascii ''A-1'')\<rparr>" "Resolved \<lparr>status = 200, json_body = Some ()\<rparr>"]
  by simp

section \<open>Properties of the products-income table\<close>

lemma round_12_5: "round_double (1 / 8 * 100) = Num (25 / 2)"
  by code_simp

lemma three_decimals_not_integer: "\<not> Number_isInteger (times100 (Some (Num (1 / 8))))"
  by (simp add: times100_def round_12_5) (simp add: Number_isInteger_def, code_simp)

lemma validate_three_decimals_row: "validateProductsIncome three_decimals_row = [(''total'', [])]"
  using three_decimals_not_integer
  by (simp add: three_decimals_row_def validateProductsIncome_def Let_def not_number_def
      not_string_def isNaN_def ascii_def)

lemma digits_3: "digits 3 = ascii ''3''"
  by (simp add: digits.simps ascii_def)

text \<open>
  C6. For a row with total 0.125 the format check of \<open>validateProductsIncome\<close> fires, but
  the message it assigns to \<open>total\<close> is the empty string, which the save handlers count as
  no error: both send their request.
\<close>

theorem three_decimals_total_is_saved:
  "map_of (validateProductsIncome three_decimals_row) ''total'' = Some []
   \<and> requests (handleSaveProductsIncome reformat three_decimals_row outcome)
     = [\<lparr>request_method = PUT, request_url = products_income_API_URL @ ascii ''/3'',
         body = Some (with_date reformat three_decimals_row)\<rparr>]
   \<and> requests (handleCreateProductsIncome reformat three_decimals_row outcome)
     = [\<lparr>request_method = POST, request_url = products_income_API_URL,
         body = Some (with_date reformat three_decimals_row)\<rparr>]"
  by (simp add: validate_three_decimals_row handleSaveProductsIncome_def
      handleCreateProductsIncome_def some_error_def updateProductsIncome_def
      createProductsIncome_def digits_3 split: sum.split)
     (simp add: three_decimals_row_def digits_3 ascii_def)

section \<open>Properties of the outcome form\<close>

text \<open>
  C7. The form is submitted with its note number still 0; the server answers the first POST
  with the created record, whose note number is 15. The second POST is sent, and its line
  item carries 0, the number of the form, not the number obtained from the server.
\<close>

theorem outcome_notes_ignore_created_note_id:
  "created_note_id created15 = Some (Num 15)
   \<and> map request_method
        (fst (createProductsOutcome_mutationFn untouched_form (Resolved created15)
               (Resolved \<lparr>status = 201, json_body = Some ()\<rparr>))) = [POST, POST]
   \<and> posted_note_ids
        (fst (createProductsOutcome_mutationFn untouched_form (Resolved created15)
               (Resolved \<lparr>status = 201, json_body = Some ()\<rparr>)) ! 1) = [Num 0]"
  by (simp add: createProductsOutcome_mutationFn_def untouched_form_def created15_def ok_def
      Let_def posted_note_ids_def created_note_id_def)

section \<open>Properties of the report screen\<close>

















text \<open>
  C9. \<open>handleReportTypeChange\<close> selects the new report type, clears the report data, and
  leaves a sort key that is among the options of the new type: a switch to the inventory
  report turns \<open>total\<close> into \<open>total_remaining\<close>, a switch to another report turns
  \<open>total_remaining\<close> into \<open>total\<close>.
\<close>

theorem report_type_change:
  "reportType (handleReportTypeChange newReportType state) = newReportType
   \<and> reportData (handleReportTypeChange newReportType state) = []
   \<and> sortBy (reportParams (handleReportTypeChange newReportType state))
       \<in> set (sortBy_options newReportType)
   \<and> (newReportType = Inventory \<and> sortBy (reportParams state) = Sort_total
        \<longrightarrow> sortBy (reportParams (handleReportTypeChange newReportType state))
              = Sort_total_remaining)
   \<and> (newReportType \<noteq> Inventory \<and> sortBy (reportParams state) = Sort_total_remaining
        \<longrightarrow> sortBy (reportParams (handleReportTypeChange newReportType state)) = Sort_total)"
  by (cases "sortBy (reportParams state)")
     (simp_all add: handleReportTypeChange_def sortBy_options_def)

theorem report_type_change_witness:
  "reportData (showing Revenue Sort_total) \<noteq> []
   \<and> reportData (handleReportTypeChange Inventory (showing Revenue Sort_total)) = []
   \<and> sortBy (reportParams (handleReportTypeChange Inventory (showing Revenue Sort_total)))
       = Sort_total_remaining
   \<and> sortBy (reportParams (handleReportTypeChange Cost (showing Inventory Sort_total_remaining)))
       = Sort_total"
  using report_type_change [of Inventory "showing Revenue Sort_total"]
    report_type_change [of Cost "showing Inventory Sort_total_remaining"]
  by (simp add: showing_def three_rows_def)

end
